(* ===== verification/Prelude.thy ===== *)
theory Prelude
  imports Main "HOL-Library.Sublist"
begin

text \<open>
  Shared vocabulary of the development: the kinds of names that occur in the
  declaration file \<^verbatim>\<open>src/react-datetime.d.ts\<close>, the collections of unfolding rules the
  component theories fill, and the list lemmas their proofs share (duplicate
  detection, lookup by key, emptiness of a list of diagnostics).
\<close>

section \<open>Names\<close>

type_synonym name = string
  \<comment> \<open>an identifier: a member, a parameter, an interface or a variable\<close>

type_synonym qname = "string list"
  \<comment> \<open>a dotted entity name, outermost part first: \<^verbatim>\<open>React.Component\<close> is \<open>[''React'', ''Component'']\<close>\<close>

section \<open>Collections of facts\<close>

named_theorems member_defs "the member declarations of the interface, as unfolding rules"
named_theorems module_defs "the module declarations of the file, as unfolding rules"
named_theorems check_defs "the definitions of the literal check, as unfolding rules"

section \<open>Duplicates of a list\<close>

text \<open>
  \<open>duplicates xs\<close> lists, in order, every element of \<open>xs\<close> that occurs again further
  right: one entry per redundant occurrence.
\<close>

fun duplicates :: "'a list \<Rightarrow> 'a list" where
  "duplicates [] = []"
| "duplicates (x # xs) = (if x \<in> set xs then x # duplicates xs else duplicates xs)"

lemma set_duplicates_subset: "set (duplicates xs) \<subseteq> set xs"
  by (induction xs) auto

lemma duplicates_Nil_iff [simp]: "duplicates xs = [] \<longleftrightarrow> distinct xs"
  by (induction xs) auto

lemma duplicates_mem_iff: "x \<in> set (duplicates xs) \<longleftrightarrow> 1 < count_list xs x"
proof (induction xs)
  case Nil
  show ?case by simp
next
  case (Cons y ys)
  have pos: "0 < count_list ys y \<longleftrightarrow> y \<in> set ys"
    by (simp add: count_list_0_iff zero_less_iff_neq_zero)
  show ?case using Cons pos by auto
qed

section \<open>Lookup by key\<close>

text \<open>
  The first entry of a list whose key is \<open>k\<close>. The declaration lists of this
  development have distinct keys, so the first entry is the only one.
\<close>

definition lookup_by :: "('a \<Rightarrow> 'k) \<Rightarrow> 'a list \<Rightarrow> 'k \<Rightarrow> 'a option" where
  "lookup_by key xs k = find (\<lambda>x. key x = k) xs"

lemma lookup_by_Nil [simp]: "lookup_by key [] k = None"
  by (simp add: lookup_by_def)

lemma lookup_by_Cons [simp]:
  "lookup_by key (x # xs) k = (if key x = k then Some x else lookup_by key xs k)"
  by (simp add: lookup_by_def)

lemma lookup_by_None_iff: "lookup_by key xs k = None \<longleftrightarrow> k \<notin> key ` set xs"
  by (induction xs) auto

lemma lookup_by_SomeD: "lookup_by key xs k = Some x \<Longrightarrow> x \<in> set xs \<and> key x = k"
  by (induction xs) (auto split: if_splits)

lemma lookup_by_distinct:
  "distinct (map key xs) \<Longrightarrow> x \<in> set xs \<Longrightarrow> lookup_by key xs (key x) = Some x"
  by (induction xs) (auto simp: image_iff)

lemma lookup_by_Some_iff:
  "distinct (map key xs) \<Longrightarrow> lookup_by key xs k = Some x \<longleftrightarrow> x \<in> set xs \<and> key x = k"
  by (auto dest: lookup_by_SomeD simp: lookup_by_distinct)

section \<open>Subsequences\<close>

lemma subseq_set_mono: "subseq xs ys \<Longrightarrow> set xs \<subseteq> set ys"
  by (auto dest: set_mono_prefix list_emb_set)

lemma subseq_distinct: "subseq xs ys \<Longrightarrow> distinct ys \<Longrightarrow> distinct xs"
  by (induction rule: list_emb.induct) (auto dest: subseq_set_mono)

lemma subseq_distinct_map: "subseq xs ys \<Longrightarrow> distinct (map f ys) \<Longrightarrow> distinct (map f xs)"
  by (rule subseq_distinct [OF subseq_map])

end
