(* ===== verification/TsTypes.thy ===== *)
theory TsTypes
  imports Prelude
begin

text \<open>
  The fragment of the TypeScript 1.8 type language that
  \<^verbatim>\<open>src/react-datetime.d.ts\<close> is written in: the type expressions that occur to the
  right of a colon in the file, the member declarations of an interface body, and
  the syntactic well-formedness conditions on them. Nothing here is specific to
  the date picker; the theory \<open>DatetimepickerProps\<close> instantiates it.
\<close>

section \<open>Type expressions\<close>

text \<open>
  One constructor per form of type that the file uses: the predefined types
  \<^verbatim>\<open>any\<close>, \<^verbatim>\<open>void\<close>, \<^verbatim>\<open>boolean\<close>, \<^verbatim>\<open>number\<close> and \<^verbatim>\<open>string\<close>; references to named types with
  type arguments (\<^verbatim>\<open>Date\<close>, \<^verbatim>\<open>Object\<close>, \<^verbatim>\<open>Function\<close>, \<^verbatim>\<open>Moment\<close>, \<^verbatim>\<open>React.Component<any, any>\<close>);
  unions (\<^verbatim>\<open>boolean|string\<close>); function type literals with named, required
  parameters (\<^verbatim>\<open>(amount: number, type: string) => void\<close>). The file has no optional
  or rest parameter, no type parameter, no object type literal, no array and no
  tuple type, so these forms are left out.

  \<open>TUndefined\<close> and \<open>TNull\<close> are the types of the expressions \<^verbatim>\<open>undefined\<close> and
  \<^verbatim>\<open>null\<close>. They cannot be written in a TypeScript 1.8 type annotation and do not
  occur in the file; they are needed to state what a caller may pass or return.
\<close>

datatype ty =
    TAny
  | TVoid
  | TUndefined
  | TNull
  | TBoolean
  | TNumber
  | TString
  | TRef qname "ty list"
  | TUnion ty ty
  | TFun "(name \<times> ty) list" ty

type_synonym param = "name \<times> ty"

text \<open>The named types the file refers to.\<close>

abbreviation DateT :: ty where "DateT \<equiv> TRef [''Date''] []"
abbreviation ObjectT :: ty where "ObjectT \<equiv> TRef [''Object''] []"
abbreviation FunctionT :: ty where "FunctionT \<equiv> TRef [''Function''] []"
abbreviation MomentT :: ty where "MomentT \<equiv> TRef [''Moment''] []"
abbreviation ReactComponentT :: "ty \<Rightarrow> ty \<Rightarrow> ty" where
  "ReactComponentT P S \<equiv> TRef [''React'', ''Component''] [P, S]"
abbreviation ReactComponentClassT :: "ty \<Rightarrow> ty" where
  "ReactComponentClassT P \<equiv> TRef [''React'', ''ComponentClass''] [P]"

section \<open>Interface members\<close>

text \<open>
  A property member \<^verbatim>\<open>name?: T;\<close> of an interface body: its name, whether the
  question mark is present, and its type. An interface body is the list of its
  members in source order.
\<close>

datatype member = Member (mname: name) (optional: bool) (mtype: ty)

type_synonym interface = "member list"

definition find_member :: "interface \<Rightarrow> name \<Rightarrow> member option" where
  "find_member I n = lookup_by mname I n"

definition member_type :: "interface \<Rightarrow> name \<Rightarrow> ty option" where
  "member_type I n = map_option mtype (find_member I n)"

lemma find_member_simps [simp]:
  "find_member [] n = None"
  "find_member (m # I) n = (if mname m = n then Some m else find_member I n)"
  by (simp_all add: find_member_def)

lemma find_member_None_iff: "find_member I n = None \<longleftrightarrow> n \<notin> mname ` set I"
  by (simp add: find_member_def lookup_by_None_iff)

lemma find_member_SomeD: "find_member I n = Some m \<Longrightarrow> m \<in> set I \<and> mname m = n"
  unfolding find_member_def by (rule lookup_by_SomeD)

lemma find_member_distinct:
  "distinct (map mname I) \<Longrightarrow> m \<in> set I \<Longrightarrow> find_member I (mname m) = Some m"
  unfolding find_member_def by (rule lookup_by_distinct)

lemma member_type_None_iff: "member_type I n = None \<longleftrightarrow> n \<notin> mname ` set I"
  by (simp add: member_type_def find_member_None_iff)

lemma member_type_distinct:
  "distinct (map mname I) \<Longrightarrow> m \<in> set I \<Longrightarrow> member_type I (mname m) = Some (mtype m)"
  by (simp add: member_type_def find_member_distinct)

section \<open>Names a type refers to\<close>

text \<open>
  \<open>type_refs T\<close> lists the entity names that occur in \<open>T\<close>, left to right, type
  arguments after the name they are applied to.
\<close>

fun type_refs :: "ty \<Rightarrow> qname list" where
  "type_refs (TRef q args) = q # concat (map type_refs args)"
| "type_refs (TUnion A B) = type_refs A @ type_refs B"
| "type_refs (TFun ps r) = concat (map (\<lambda>p. type_refs (snd p)) ps) @ type_refs r"
| "type_refs _ = []"

definition interface_refs :: "interface \<Rightarrow> qname list" where
  "interface_refs I = concat (map (type_refs \<circ> mtype) I)"

section \<open>Well-formed types and interfaces\<close>

text \<open>
  TypeScript rejects a signature that names two parameters alike and an
  interface body that declares a property twice (error TS2300, duplicate
  identifier). \<open>TUndefined\<close> and \<open>TNull\<close> cannot be written, so a declared type
  does not contain them.
\<close>

fun wf_ty :: "ty \<Rightarrow> bool" where
  "wf_ty TUndefined = False"
| "wf_ty TNull = False"
| "wf_ty (TRef q args) = (q \<noteq> [] \<and> list_all wf_ty args)"
| "wf_ty (TUnion A B) = (wf_ty A \<and> wf_ty B)"
| "wf_ty (TFun ps r) = (distinct (map fst ps) \<and> list_all (\<lambda>p. wf_ty (snd p)) ps \<and> wf_ty r)"
| "wf_ty _ = True"

definition wf_interface :: "interface \<Rightarrow> bool" where
  "wf_interface I \<longleftrightarrow> distinct (map mname I) \<and> list_all (wf_ty \<circ> mtype) I"

lemma wf_interface_Nil [simp]: "wf_interface []"
  by (simp add: wf_interface_def)

lemma wf_interface_Cons:
  "wf_interface (m # I) \<longleftrightarrow> mname m \<notin> mname ` set I \<and> wf_ty (mtype m) \<and> wf_interface I"
  by (auto simp: wf_interface_def)

lemma wf_interface_distinct: "wf_interface I \<Longrightarrow> distinct (map mname I)"
  by (simp add: wf_interface_def)

lemma wf_interface_member: "wf_interface I \<Longrightarrow> m \<in> set I \<Longrightarrow> wf_ty (mtype m)"
  by (simp add: wf_interface_def list_all_iff)

end
