(* ===== verification/Assignability.thy ===== *)
theory Assignability
  imports TsTypes
begin

text \<open>
  Assignment compatibility of the TypeScript 1.8 language specification
  (section 3.11.4), restricted to the type forms of \<open>TsTypes\<close>: when a value of
  type \<open>S\<close> may be supplied where the declaration file asks for a \<open>T\<close>. This is the
  meaning the compiler gives to the declarations of the file; it is not code of
  the repository.

  A type reference is taken to name an interface or a class. Named types other
  than \<^verbatim>\<open>Object\<close> and \<^verbatim>\<open>Function\<close> are declared outside the repository, so their
  members are not known here: two references are compared by name, with their
  type arguments compared position by position. A judgement
  \<open>assignable S T = True\<close> obtained this way is one the compiler makes as well;
  for two references with different names the compiler compares members and may
  accept what this relation rejects.

  A union is kept as the source writes it. The compiler reduces \<^verbatim>\<open>string|any\<close>
  (lines 85 and 96 of the file) to \<^verbatim>\<open>any\<close>; here it stays a union, so as the type of
  a value it would have to be assignable constituent by constituent. In the file
  the union occurs only as a parameter type, where types are compared in both
  directions and every type is assignable to \<^verbatim>\<open>string|any\<close>, as it is to \<^verbatim>\<open>any\<close>.
\<close>

section \<open>The relation\<close>

text \<open>
  Types that carry the members of the global interface \<^verbatim>\<open>Object\<close>: object types
  (references and function types) and the primitive types \<^verbatim>\<open>boolean\<close>, \<^verbatim>\<open>number\<close>
  and \<^verbatim>\<open>string\<close> through their apparent types. \<^verbatim>\<open>void\<close> is not among them.
\<close>

fun object_like :: "ty \<Rightarrow> bool" where
  "object_like TBoolean = True"
| "object_like TNumber = True"
| "object_like TString = True"
| "object_like (TRef q args) = True"
| "object_like (TFun ps r) = True"
| "object_like _ = False"

text \<open>
  \<open>assignable S T\<close> holds when one of the rules of section 3.11.4 applies:
  \<^item> \<open>S\<close> and \<open>T\<close> are identical;
  \<^item> \<open>S\<close> or \<open>T\<close> is \<^verbatim>\<open>any\<close>;
  \<^item> \<open>S\<close> is the undefined type;
  \<^item> \<open>S\<close> is the null type and \<open>T\<close> is not the undefined type;
  \<^item> \<open>S\<close> is a union and each constituent is assignable to \<open>T\<close>;
  \<^item> \<open>T\<close> is a union and \<open>S\<close> is assignable to a constituent;
  \<^item> \<open>T\<close> is \<^verbatim>\<open>Object\<close> and \<open>S\<close> carries its members; \<open>T\<close> is \<^verbatim>\<open>Function\<close> and \<open>S\<close> is a
    function type; \<open>S\<close> and \<open>T\<close> refer to the same name and the arguments of \<open>S\<close> are
    assignable to those of \<open>T\<close>;
  \<^item> \<open>S\<close> and \<open>T\<close> are function types, \<open>S\<close> has no more parameters than \<open>T\<close>, at each
    position they share the parameter types are assignable one way or the
    other, and the result of \<open>T\<close> is \<^verbatim>\<open>void\<close> or the result of \<open>S\<close> is assignable
    to it.
\<close>

function assignable :: "ty \<Rightarrow> ty \<Rightarrow> bool"
  and params_compat :: "param list \<Rightarrow> param list \<Rightarrow> bool"
  and args_assignable :: "ty list \<Rightarrow> ty list \<Rightarrow> bool"
where
  "assignable S T =
     (S = T \<or> S = TAny \<or> T = TAny \<or> S = TUndefined \<or> (S = TNull \<and> T \<noteq> TUndefined) \<or>
      (case S of TUnion S1 S2 \<Rightarrow> assignable S1 T \<and> assignable S2 T | _ \<Rightarrow> False) \<or>
      (case T of
         TUnion T1 T2 \<Rightarrow> assignable S T1 \<or> assignable S T2
       | TRef q bs \<Rightarrow>
           (q = [''Object''] \<and> bs = [] \<and> object_like S) \<or>
           (case S of
              TRef p as \<Rightarrow> p = q \<and> args_assignable as bs
            | TFun ps r \<Rightarrow> q = [''Function''] \<and> bs = []
            | _ \<Rightarrow> False)
       | TFun qs t \<Rightarrow>
           (case S of
              TFun ps r \<Rightarrow> length ps \<le> length qs \<and> params_compat ps qs \<and>
                (t = TVoid \<or> assignable r t)
            | _ \<Rightarrow> False)
       | _ \<Rightarrow> False))"
| "params_compat [] qs = True"
| "params_compat (p # ps) [] = True"
| "params_compat (p # ps) (q # qs) =
     ((assignable (snd p) (snd q) \<or> assignable (snd q) (snd p)) \<and> params_compat ps qs)"
| "args_assignable [] [] = True"
| "args_assignable [] (b # bs) = False"
| "args_assignable (a # as) [] = False"
| "args_assignable (a # as) (b # bs) = (assignable a b \<and> args_assignable as bs)"
  by pat_completeness auto
termination
  by (relation "measure (\<lambda>x. case x of
         Inl (S, T) \<Rightarrow> size S + size T
       | Inr (Inl (ps, qs)) \<Rightarrow>
           size_list (size_prod (\<lambda>_. 0) size) ps + size_list (size_prod (\<lambda>_. 0) size) qs
       | Inr (Inr (as, bs)) \<Rightarrow> size_list size as + size_list size bs)")
    auto

declare assignable.simps [simp del]

section \<open>The rules, one lemma each\<close>

lemma assignable_refl [simp, intro!]: "assignable T T"
  by (simp add: assignable.simps)

lemma assignable_from_any [simp, intro!]: "assignable TAny T"
  by (simp add: assignable.simps)

lemma assignable_to_any [simp, intro!]: "assignable S TAny"
  by (simp add: assignable.simps)

lemma assignable_from_undefined [simp, intro!]: "assignable TUndefined T"
  by (simp add: assignable.simps)

lemma assignable_from_null [simp]: "assignable TNull T \<longleftrightarrow> T \<noteq> TUndefined"
  by (auto simp: assignable.simps)

text \<open>
  The defining equation instantiated for each form of the source type. Every
  call on the right is on a proper part of the source or of the target, so
  these equations terminate as rewrite rules, on closed and on open types.
\<close>

lemmas assignable_unfold =
  assignable.simps [of TVoid] assignable.simps [of TBoolean] assignable.simps [of TNumber]
  assignable.simps [of TString] assignable.simps [of "TRef q args"]
  assignable.simps [of "TUnion A B"] assignable.simps [of "TFun ps r"]
  for q args A B ps r

lemma assignable_from_union:
  "assignable A T \<Longrightarrow> assignable B T \<Longrightarrow> assignable (TUnion A B) T"
  by (simp add: assignable.simps [of "TUnion A B" T])

lemma assignable_to_union1: "assignable S A \<Longrightarrow> assignable S (TUnion A B)"
  by (simp add: assignable.simps [of S "TUnion A B"])

lemma assignable_to_union2: "assignable S B \<Longrightarrow> assignable S (TUnion A B)"
  by (simp add: assignable.simps [of S "TUnion A B"])

lemma assignable_to_Object: "object_like S \<Longrightarrow> assignable S ObjectT"
  by (simp add: assignable.simps [of S ObjectT])

lemma assignable_fun_to_Function [simp]: "assignable (TFun ps r) FunctionT"
  by (simp add: assignable.simps [of "TFun ps r" FunctionT])

lemma params_compat_refl [simp]: "params_compat ps ps"
  by (induction ps) auto

lemma params_compat_take [simp]: "params_compat (take k ps) ps"
proof (induction ps arbitrary: k)
  case Nil
  show ?case by simp
next
  case (Cons p ps)
  then show ?case by (cases k) auto
qed

lemma args_assignable_refl [simp]: "args_assignable as as"
  by (induction as) auto

lemma args_assignable_iff:
  "args_assignable as bs \<longleftrightarrow> list_all2 assignable as bs"
  by (induction as bs rule: list_induct2') auto

lemma params_compat_iff:
  "params_compat ps qs \<longleftrightarrow>
     (\<forall>(p, q) \<in> set (zip ps qs). assignable (snd p) (snd q) \<or> assignable (snd q) (snd p))"
  by (induction ps qs rule: list_induct2') auto

text \<open>Between two function types only the signature rule matters.\<close>

lemma assignable_TFun_TFun:
  "assignable (TFun ps r) (TFun qs t) \<longleftrightarrow>
     length ps \<le> length qs \<and> params_compat ps qs \<and> (t = TVoid \<or> assignable r t)"
  by (auto simp: assignable.simps [of "TFun ps r" "TFun qs t"])

text \<open>Between two references: the same name, or the target is \<^verbatim>\<open>Object\<close>.\<close>

lemma assignable_TRef_TRef:
  "assignable (TRef p as) (TRef q bs) \<longleftrightarrow>
     (q = [''Object''] \<and> bs = []) \<or> (p = q \<and> args_assignable as bs)"
  by (auto simp: assignable.simps [of "TRef p as" "TRef q bs"])

section \<open>What the primitive types accept\<close>

text \<open>
  \<open>built_from Ps S\<close>: the type \<open>S\<close> is a union (possibly of one) of types among
  \<open>Ps\<close>, \<^verbatim>\<open>any\<close>, undefined and null. The predefined types \<^verbatim>\<open>boolean\<close>, \<^verbatim>\<open>number\<close> and
  \<^verbatim>\<open>string\<close> accept exactly the types built from themselves, and \<^verbatim>\<open>boolean|string\<close>
  exactly those built from \<^verbatim>\<open>boolean\<close> and \<^verbatim>\<open>string\<close>.
\<close>

fun built_from :: "ty list \<Rightarrow> ty \<Rightarrow> bool" where
  "built_from Ps TAny = True"
| "built_from Ps TUndefined = True"
| "built_from Ps TNull = True"
| "built_from Ps (TUnion A B) = (built_from Ps A \<and> built_from Ps B)"
| "built_from Ps S = (S \<in> set Ps)"

lemma built_from_mono: "set Ps \<subseteq> set Qs \<Longrightarrow> built_from Ps S \<Longrightarrow> built_from Qs S"
  by (induction Ps S rule: built_from.induct) auto

lemma assignable_to_boolean: "assignable S TBoolean \<longleftrightarrow> built_from [TBoolean] S"
  by (induction S) (auto simp: assignable_unfold)

lemma assignable_to_number: "assignable S TNumber \<longleftrightarrow> built_from [TNumber] S"
  by (induction S) (auto simp: assignable_unfold)

lemma assignable_to_string: "assignable S TString \<longleftrightarrow> built_from [TString] S"
  by (induction S) (auto simp: assignable_unfold)

lemma assignable_to_boolean_or_string:
  "assignable S (TUnion TBoolean TString) \<longleftrightarrow> built_from [TBoolean, TString] S"
proof (induction S)
  case (TUnion A B)
  have "built_from [TBoolean] X \<Longrightarrow> built_from [TBoolean, TString] X"
    and "built_from [TString] X \<Longrightarrow> built_from [TBoolean, TString] X" for X
    by (auto elim: built_from_mono [rotated])
  with TUnion show ?case
    by (auto simp: assignable.simps [of "TUnion A B" "TUnion TBoolean TString"]
        assignable_to_boolean assignable_to_string)
qed (auto simp: assignable_unfold)

text \<open>
  \<^verbatim>\<open>Object\<close> accepts every type but \<^verbatim>\<open>void\<close> and the unions that hold \<^verbatim>\<open>void\<close>.
\<close>

fun object_built :: "ty \<Rightarrow> bool" where
  "object_built TVoid = False"
| "object_built (TUnion A B) = (object_built A \<and> object_built B)"
| "object_built S = True"

lemma object_like_built: "object_like S \<Longrightarrow> object_built S"
  by (cases S) simp_all

lemma assignable_to_Object_iff: "assignable S ObjectT \<longleftrightarrow> object_built S"
  by (induction S) (auto simp: assignable_unfold)

text \<open>
  A parameter declared \<^verbatim>\<open>any\<close>, or a union that holds \<^verbatim>\<open>any\<close>, is comparable with
  every type.
\<close>

fun takes_any :: "ty \<Rightarrow> bool" where
  "takes_any TAny = True"
| "takes_any (TUnion A B) = (takes_any A \<or> takes_any B)"
| "takes_any T = False"

lemma assignable_takes_any: "takes_any T \<Longrightarrow> assignable S T"
  by (induction T rule: takes_any.induct)
    (auto intro: assignable_to_union1 assignable_to_union2)

lemma params_compat_takes_any: "list_all (\<lambda>q. takes_any (snd q)) qs \<Longrightarrow> params_compat ps qs"
  by (induction ps qs rule: list_induct2') (auto simp: assignable_takes_any)

text \<open>
  A named type other than \<^verbatim>\<open>Object\<close> accepts, among the types that are not
  references, only \<^verbatim>\<open>any\<close>, undefined, null and unions of these (and function
  types, when it is \<^verbatim>\<open>Function\<close>).
\<close>

lemma prim_to_ref:
  assumes "S = TBoolean \<or> S = TNumber \<or> S = TString \<or> S = TVoid"
  shows "assignable S (TRef q args) \<longleftrightarrow> S \<noteq> TVoid \<and> q = [''Object''] \<and> args = []"
  using assms by (auto simp: assignable_unfold)

end
