(* ===== verification/AssignRules.thy ===== *)
theory AssignRules
  imports Assignability
begin

text \<open>
  The rules of assignment compatibility as an inductive relation, one
  introduction rule per rule of the language specification, and the proof that
  the executable function \<open>assignable\<close> decides exactly this relation. The
  relation is the specification; the function is what the theorems about the
  date picker's interface evaluate.
\<close>

section \<open>The rules\<close>

inductive assign :: "ty \<Rightarrow> ty \<Rightarrow> bool" where
  identical: "assign T T"
| from_any: "assign TAny T"
| to_any: "assign S TAny"
| from_undefined: "assign TUndefined T"
| from_null: "T \<noteq> TUndefined \<Longrightarrow> assign TNull T"
| from_union: "assign A T \<Longrightarrow> assign B T \<Longrightarrow> assign (TUnion A B) T"
| to_union1: "assign S A \<Longrightarrow> assign S (TUnion A B)"
| to_union2: "assign S B \<Longrightarrow> assign S (TUnion A B)"
| to_Object: "object_like S \<Longrightarrow> assign S ObjectT"
| to_Function: "assign (TFun ps r) FunctionT"
| same_name: "list_all2 assign as bs \<Longrightarrow> assign (TRef q as) (TRef q bs)"
| signature:
    "length ps \<le> length qs \<Longrightarrow>
     list_all2 (\<lambda>p q. assign (snd p) (snd q) \<or> assign (snd q) (snd p)) ps (take (length ps) qs) \<Longrightarrow>
     t = TVoid \<or> assign r t \<Longrightarrow>
     assign (TFun ps r) (TFun qs t)"

inductive_cases assign_to_void: "assign S TVoid"
inductive_cases assign_from_void: "assign TVoid T"

section \<open>The function decides the relation\<close>

lemma params_compat_list_all2:
  "length ps \<le> length qs \<Longrightarrow>
   params_compat ps qs \<longleftrightarrow>
     list_all2 (\<lambda>p q. assignable (snd p) (snd q) \<or> assignable (snd q) (snd p))
       ps (take (length ps) qs)"
  by (induction ps qs rule: list_induct2') auto

lemma assign_imp_assignable: "assign S T \<Longrightarrow> assignable S T"
proof (induction rule: assign.induct)
  case (same_name as bs q)
  then have "list_all2 assignable as bs"
    by (simp add: list_all2_conv_all_nth)
  then show ?case
    by (simp add: assignable_TRef_TRef args_assignable_iff)
next
  case (signature ps qs t r)
  from signature(2) have "list_all2 (\<lambda>p q. assignable (snd p) (snd q) \<or> assignable (snd q) (snd p))
      ps (take (length ps) qs)"
    by (rule list_all2_mono) auto
  with signature(1,3) show ?case
    by (auto simp: assignable_TFun_TFun params_compat_list_all2)
qed (auto intro: assignable_from_union assignable_to_union1 assignable_to_union2 assignable_to_Object)

lemma assignable_imp_assign_aux:
  "assignable S T \<longrightarrow> assign S T"
  "params_compat ps qs \<longrightarrow>
     list_all2 (\<lambda>p q. assign (snd p) (snd q) \<or> assign (snd q) (snd p))
       (take (length qs) ps) (take (length ps) qs)"
  "args_assignable as bs \<longrightarrow> list_all2 assign as bs"
proof (induction S T and ps qs and as bs rule: assignable_params_compat_args_assignable.induct)
  case (1 S T)
  show ?case
  proof
    assume "assignable S T"
    then consider
        (simple) "S = T \<or> S = TAny \<or> T = TAny \<or> S = TUndefined \<or> (S = TNull \<and> T \<noteq> TUndefined)"
      | (usrc) A B where "S = TUnion A B" "assignable A T" "assignable B T"
      | (utgt) A B where "T = TUnion A B" "assignable S A \<or> assignable S B"
      | (obj) "T = ObjectT" "object_like S"
      | (ref) q as bs where "S = TRef q as" "T = TRef q bs" "args_assignable as bs"
      | (func) ps r where "S = TFun ps r" "T = FunctionT"
      | (sig) ps r qs t where "S = TFun ps r" "T = TFun qs t" "length ps \<le> length qs"
          "params_compat ps qs" "t = TVoid \<or> assignable r t"
      by (auto simp: assignable.simps [of S T] split: ty.splits)
    then show "assign S T"
    proof cases
      case simple
      then show ?thesis by (auto intro: assign.intros)
    next
      case usrc
      with "1.IH"(1,2) show ?thesis by (auto intro: assign.intros)
    next
      case utgt
      with "1.IH"(4,5) show ?thesis by (auto intro: assign.intros)
    next
      case obj
      then show ?thesis by (auto intro: assign.intros)
    next
      case ref
      with "1.IH"(3) show ?thesis by (auto intro: assign.intros)
    next
      case func
      then show ?thesis by (auto intro: assign.intros)
    next
      case sig
      from "1.IH"(6) [OF sig(2,1)] sig(3,4)
      have "list_all2 (\<lambda>p q. assign (snd p) (snd q) \<or> assign (snd q) (snd p))
          ps (take (length ps) qs)"
        by simp
      moreover from "1.IH"(7) [OF sig(2,1)] sig(5) have "t = TVoid \<or> assign r t"
        by auto
      ultimately show ?thesis
        unfolding sig(1,2) using sig(3) by (intro assign.signature)
    qed
  qed
qed auto

theorem assignable_iff_assign: "assignable S T \<longleftrightarrow> assign S T"
  using assignable_imp_assign_aux(1) assign_imp_assignable by blast

section \<open>Consequences\<close>

text \<open>
  Assignability is reflexive but, because of \<^verbatim>\<open>any\<close>, not transitive: a \<^verbatim>\<open>string\<close> is
  assignable to \<^verbatim>\<open>any\<close> and \<^verbatim>\<open>any\<close> to \<^verbatim>\<open>number\<close>, but a \<^verbatim>\<open>string\<close> is not
  assignable to \<^verbatim>\<open>number\<close>. Nothing but \<^verbatim>\<open>any\<close>, undefined, null, \<^verbatim>\<open>void\<close> itself and
  unions of these is assignable to \<^verbatim>\<open>void\<close>.
\<close>

lemma assign_not_transitive:
  "assign TString TAny \<and> assign TAny TNumber \<and> \<not> assign TString TNumber"
  by (simp add: assignable_iff_assign [symmetric] assignable_unfold)

lemma assign_void_only_from:
  "assign S TVoid \<longleftrightarrow> built_from [TVoid] S"
  unfolding assignable_iff_assign [symmetric]
  by (induction S) (auto simp: assignable_unfold)

end
