(* ===== verification/ObjectLiteral.thy ===== *)
theory ObjectLiteral
  imports AssignRules "HOL-Library.Multiset"
begin

text \<open>
  How the compiler checks a fresh object literal (the props a caller writes)
  against an interface: the diagnostics it reports, and acceptance as the
  absence of diagnostics. The rules are those of the TypeScript 1.8 language
  specification for object types (section 3.11.4, members of the target) and for
  excess properties of object literals (section 3.11.5). The date picker's
  interface is checked with these definitions in theory \<open>DatetimepickerProps\<close>.
\<close>

section \<open>Literals and diagnostics\<close>

text \<open>
  The type of an object literal \<^verbatim>\<open>{ n1: e1, ..., nk: ek }\<close>: the property names in
  source order, each with the type of its expression.
\<close>

type_synonym literal = "(name \<times> ty) list"

datatype diag =
    DuplicateProperty name
  | ExcessProperty name
  | TypeMismatch name ty ty
  | MissingProperty name

text \<open>
  One property of the literal against the interface: a name the interface does
  not declare is an excess property; a declared name needs a type assignable to
  the declared one.
\<close>

fun check_property :: "interface \<Rightarrow> name \<times> ty \<Rightarrow> diag list" where [check_defs]:
  "check_property I (n, S) =
     (case find_member I n of
        None \<Rightarrow> [ExcessProperty n]
      | Some m \<Rightarrow> if assignable S (mtype m) then [] else [TypeMismatch n S (mtype m)])"

text \<open>Members without a question mark must be present in the literal.\<close>

definition missing_members :: "interface \<Rightarrow> literal \<Rightarrow> diag list" where [check_defs]:
  "missing_members I L =
     map (MissingProperty \<circ> mname) (filter (\<lambda>m. \<not> optional m \<and> mname m \<notin> fst ` set L) I)"

definition diagnostics :: "interface \<Rightarrow> literal \<Rightarrow> diag list" where [check_defs]:
  "diagnostics I L =
     map DuplicateProperty (duplicates (map fst L)) @
     concat (map (check_property I) L) @
     missing_members I L"

definition accepts :: "interface \<Rightarrow> literal \<Rightarrow> bool" where [check_defs]:
  "accepts I L \<longleftrightarrow> diagnostics I L = []"

section \<open>Each diagnostic, characterised\<close>

lemma check_property_Nil_iff:
  "check_property I (n, S) = [] \<longleftrightarrow> (\<exists>m. find_member I n = Some m \<and> assignable S (mtype m))"
  by (auto split: option.splits)

lemma check_property_excess:
  "n \<notin> mname ` set I \<Longrightarrow> check_property I (n, S) = [ExcessProperty n]"
  by (simp add: find_member_None_iff [symmetric])

lemma missing_members_Nil_iff:
  "missing_members I L = [] \<longleftrightarrow> (\<forall>m \<in> set I. optional m \<or> mname m \<in> fst ` set L)"
  by (auto simp: missing_members_def filter_empty_conv)

lemma missing_members_all_optional [simp]:
  "list_all optional I \<Longrightarrow> missing_members I L = []"
  by (simp add: missing_members_Nil_iff list_all_iff)

lemma set_diagnostics:
  "set (diagnostics I L) =
     DuplicateProperty ` set (duplicates (map fst L)) \<union>
     (\<Union>p \<in> set L. set (check_property I p)) \<union>
     MissingProperty ` mname ` {m \<in> set I. \<not> optional m \<and> mname m \<notin> fst ` set L}"
  by (simp add: diagnostics_def missing_members_def image_comp Un_assoc del: check_property.simps)

lemma excess_in_check_property:
  "ExcessProperty n \<in> set (check_property I p) \<longleftrightarrow> fst p = n \<and> n \<notin> mname ` set I"
  by (cases p) (auto simp: find_member_None_iff [symmetric] split: option.splits)

lemma mismatch_in_check_property:
  "TypeMismatch n S T \<in> set (check_property I p) \<longleftrightarrow>
     p = (n, S) \<and> member_type I n = Some T \<and> \<not> assignable S T"
  by (cases p) (auto simp: member_type_def split: option.splits)

lemma check_property_kinds:
  "DuplicateProperty n \<notin> set (check_property I p)"
  "MissingProperty n \<notin> set (check_property I p)"
  by (cases p; simp split: option.splits)+

lemma duplicate_reported:
  "DuplicateProperty n \<in> set (diagnostics I L) \<longleftrightarrow> 1 < count_list (map fst L) n"
  by (auto simp: set_diagnostics check_property_kinds duplicates_mem_iff)

lemma excess_reported:
  "ExcessProperty n \<in> set (diagnostics I L) \<longleftrightarrow> n \<in> fst ` set L \<and> n \<notin> mname ` set I"
  by (auto simp: set_diagnostics excess_in_check_property)

lemma mismatch_reported:
  "TypeMismatch n S T \<in> set (diagnostics I L) \<longleftrightarrow>
     (n, S) \<in> set L \<and> member_type I n = Some T \<and> \<not> assignable S T"
  by (auto simp: set_diagnostics mismatch_in_check_property)

lemma missing_reported:
  "MissingProperty n \<in> set (diagnostics I L) \<longleftrightarrow>
     (\<exists>m \<in> set I. mname m = n \<and> \<not> optional m) \<and> n \<notin> fst ` set L"
  by (auto simp: set_diagnostics check_property_kinds)

section \<open>Acceptance\<close>

text \<open>
  The declarative reading of acceptance: the literal names no property twice,
  each of its properties is declared with a type its own type is assignable
  to, and every required member is present.
\<close>

definition conforms :: "interface \<Rightarrow> literal \<Rightarrow> bool" where
  "conforms I L \<longleftrightarrow>
     distinct (map fst L) \<and>
     (\<forall>(n, S) \<in> set L. \<exists>T. member_type I n = Some T \<and> assignable S T) \<and>
     (\<forall>m \<in> set I. optional m \<or> mname m \<in> fst ` set L)"

theorem accepts_iff_conforms: "accepts I L \<longleftrightarrow> conforms I L"
proof -
  have "check_property I p = [] \<longleftrightarrow>
      (\<exists>T. member_type I (fst p) = Some T \<and> assignable (snd p) T)" for p
    by (cases p) (auto simp: member_type_def split: option.splits)
  then have "concat (map (check_property I) L) = [] \<longleftrightarrow>
      (\<forall>(n, S) \<in> set L. \<exists>T. member_type I n = Some T \<and> assignable S T)"
    by (simp add: case_prod_unfold)
  then show ?thesis
    by (simp add: accepts_def diagnostics_def conforms_def missing_members_Nil_iff)
qed

lemma accepts_Nil_iff: "accepts I [] \<longleftrightarrow> list_all optional I"
  by (simp add: accepts_iff_conforms conforms_def list_all_iff)

lemma accepts_single_iff:
  "list_all optional I \<Longrightarrow>
     accepts I [(n, S)] \<longleftrightarrow> (\<exists>T. member_type I n = Some T \<and> assignable S T)"
  by (simp add: accepts_iff_conforms conforms_def list_all_iff)

text \<open>The diagnostics for a literal with one property, every member being optional.\<close>

lemma diagnostics_single:
  "list_all optional I \<Longrightarrow>
     diagnostics I [(n, S)] =
       (case member_type I n of
          None \<Rightarrow> [ExcessProperty n]
        | Some T \<Rightarrow> if assignable S T then [] else [TypeMismatch n S T])"
  by (simp add: diagnostics_def member_type_def split: option.splits)

text \<open>
  Two rules for callbacks, true of every interface whose members are optional:
  a function may take fewer parameters than the member declares, and where the
  member declares the result \<^verbatim>\<open>void\<close> a function may return anything.
\<close>

lemma accepts_fewer_params:
  "list_all optional I \<Longrightarrow> member_type I n = Some (TFun ps r) \<Longrightarrow>
     accepts I [(n, TFun (take k ps) r)]"
  by (simp add: accepts_single_iff assignable_TFun_TFun)

lemma accepts_void_result:
  "list_all optional I \<Longrightarrow> member_type I n = Some (TFun ps TVoid) \<Longrightarrow>
     accepts I [(n, TFun ps R)]"
  by (simp add: accepts_single_iff assignable_TFun_TFun)

text \<open>
  With every member optional, acceptance is closed under leaving properties
  out, and does not depend on the order in which the properties are written.
\<close>

lemma conforms_subseq:
  assumes "conforms I L" and "subseq K L" and "list_all optional I"
  shows "conforms I K"
proof -
  from assms(2) have "set K \<subseteq> set L" by (rule subseq_set_mono)
  moreover from assms(1,2) have "distinct (map fst K)"
    by (auto simp: conforms_def intro: subseq_distinct_map)
  ultimately show ?thesis
    using assms(1,3) by (auto simp: conforms_def list_all_iff)
qed

lemma conforms_mset:
  assumes "mset K = mset L"
  shows "conforms I K \<longleftrightarrow> conforms I L"
proof -
  from assms have "set K = set L" by (rule mset_eq_setD)
  moreover from assms have "mset (map fst K) = mset (map fst L)" by simp
  then have "distinct (map fst K) \<longleftrightarrow> distinct (map fst L)"
    by (rule mset_eq_imp_distinct_iff)
  ultimately show ?thesis by (simp add: conforms_def)
qed

text \<open>
  The literal that gives every member of the interface its declared type, and
  the literals that give each of its names an arbitrary type.
\<close>

definition canonical :: "interface \<Rightarrow> literal" where
  "canonical I = map (\<lambda>m. (mname m, mtype m)) I"

lemma canonical_member:
  "wf_interface I \<Longrightarrow> (n, S) \<in> set (canonical I) \<Longrightarrow> member_type I n = Some S"
  by (auto simp: canonical_def wf_interface_def member_type_distinct)

lemma conforms_canonical:
  assumes "wf_interface I"
  shows "conforms I (canonical I)"
proof -
  have "distinct (map fst (canonical I))"
    using assms by (simp add: canonical_def comp_def wf_interface_def)
  moreover have "\<exists>T. member_type I n = Some T \<and> assignable S T"
    if "(n, S) \<in> set (canonical I)" for n S
    using canonical_member [OF assms that] by simp
  moreover have "mname m \<in> fst ` set (canonical I)" if "m \<in> set I" for m
    using that by (force simp: canonical_def)
  ultimately show ?thesis
    unfolding conforms_def by blast
qed

end
