(* ===== verification/DatetimepickerProps.thy ===== *)
theory DatetimepickerProps
  imports ObjectLiteral
begin

text \<open>
  The interface \<^verbatim>\<open>DatetimepickerProps\<close> of \<^verbatim>\<open>src/react-datetime.d.ts\<close> (lines 15 to
  189): one definition per member, in source order, and the interface body as
  their list. The definition of the member \<^verbatim>\<open>n\<close> is \<open>n_member\<close>; the name inside
  the member is the source's. Every member of the source carries a question
  mark, hence the \<open>True\<close> in every definition.

  The lemmas say which props literals the compiler accepts against this
  interface: the general characterisation first, then, group by group, the
  exact set of types each option admits. The statements of the second kind
  spell out the names and the types they are about, so each of them fails when
  the declaration of one of its members changes.
\<close>

section \<open>The members\<close>

subsection \<open>Value and view\<close>

definition value_member :: member where [member_defs]:
  "value_member = Member ''value'' True DateT"

definition initialValue_member :: member where [member_defs]:
  "initialValue_member = Member ''initialValue'' True DateT"

definition initialViewDate_member :: member where [member_defs]:
  "initialViewDate_member = Member ''initialViewDate'' True DateT"

definition initialViewMode_member :: member where [member_defs]:
  "initialViewMode_member = Member ''initialViewMode'' True TString"

definition updateOnView_member :: member where [member_defs]:
  "updateOnView_member = Member ''updateOnView'' True TString"

subsection \<open>Formats, locale and time zone\<close>

definition dateFormat_member :: member where [member_defs]:
  "dateFormat_member = Member ''dateFormat'' True (TUnion TBoolean TString)"

definition timeFormat_member :: member where [member_defs]:
  "timeFormat_member = Member ''timeFormat'' True (TUnion TBoolean TString)"

definition input_member :: member where [member_defs]:
  "input_member = Member ''input'' True TBoolean"

definition open_member :: member where [member_defs]:
  "open_member = Member ''open'' True TBoolean"

definition locale_member :: member where [member_defs]:
  "locale_member = Member ''locale'' True TString"

definition utc_member :: member where [member_defs]:
  "utc_member = Member ''utc'' True TBoolean"

definition displayTimeZone_member :: member where [member_defs]:
  "displayTimeZone_member = Member ''displayTimeZone'' True TString"

subsection \<open>Callbacks\<close>

definition onChange_member :: member where [member_defs]:
  "onChange_member = Member ''onChange'' True
     (TFun [(''momentOrInputString'', TUnion TString TAny)] TVoid)"

definition onOpen_member :: member where [member_defs]:
  "onOpen_member = Member ''onOpen'' True (TFun [] TVoid)"

definition onClose_member :: member where [member_defs]:
  "onClose_member = Member ''onClose'' True
     (TFun [(''momentOrInputString'', TUnion TString TAny)] TVoid)"

definition onNavigate_member :: member where [member_defs]:
  "onNavigate_member = Member ''onNavigate'' True (TFun [(''viewMode'', TString)] TVoid)"

definition onBeforeNavigate_member :: member where [member_defs]:
  "onBeforeNavigate_member = Member ''onBeforeNavigate'' True
     (TFun [(''nextView'', TString), (''currentView'', TString), (''viewDate'', MomentT)] TString)"

definition onNavigateBack_member :: member where [member_defs]:
  "onNavigateBack_member = Member ''onNavigateBack'' True
     (TFun [(''amount'', TNumber), (''type'', TString)] TVoid)"

definition onNavigateForward_member :: member where [member_defs]:
  "onNavigateForward_member = Member ''onNavigateForward'' True
     (TFun [(''amount'', TNumber), (''type'', TString)] TVoid)"

subsection \<open>Markup and rendering\<close>

definition className_member :: member where [member_defs]:
  "className_member = Member ''className'' True TString"

definition inputProps_member :: member where [member_defs]:
  "inputProps_member = Member ''inputProps'' True ObjectT"

definition renderView_member :: member where [member_defs]:
  "renderView_member = Member ''renderView'' True
     (TFun [(''viewMode'', TString), (''renderCalendar'', FunctionT)] (ReactComponentT TAny TAny))"

definition renderInput_member :: member where [member_defs]:
  "renderInput_member = Member ''renderInput'' True
     (TFun [(''props'', ObjectT), (''openCalendar'', FunctionT), (''closeCalendar'', FunctionT)]
       (ReactComponentT TAny TAny))"

definition isValidDate_member :: member where [member_defs]:
  "isValidDate_member = Member ''isValidDate'' True
     (TFun [(''currentDate'', TAny), (''selectedDate'', TAny)] TBoolean)"

definition renderDay_member :: member where [member_defs]:
  "renderDay_member = Member ''renderDay'' True
     (TFun [(''props'', TAny), (''currentDate'', TAny), (''selectedDate'', TAny)]
       (ReactComponentT TAny TAny))"

definition renderMonth_member :: member where [member_defs]:
  "renderMonth_member = Member ''renderMonth'' True
     (TFun [(''props'', TAny), (''month'', TNumber), (''year'', TNumber), (''selectedDate'', TAny)]
       (ReactComponentT TAny TAny))"

definition renderYear_member :: member where [member_defs]:
  "renderYear_member = Member ''renderYear'' True
     (TFun [(''props'', TAny), (''year'', TNumber), (''selectedDate'', TAny)]
       (ReactComponentT TAny TAny))"

subsection \<open>Parsing and closing\<close>

definition strictParsing_member :: member where [member_defs]:
  "strictParsing_member = Member ''strictParsing'' True TBoolean"

definition closeOnTab_member :: member where [member_defs]:
  "closeOnTab_member = Member ''closeOnTab'' True TBoolean"

definition closeOnSelect_member :: member where [member_defs]:
  "closeOnSelect_member = Member ''closeOnSelect'' True TBoolean"

definition timeConstraints_member :: member where [member_defs]:
  "timeConstraints_member = Member ''timeConstraints'' True ObjectT"

definition closeOnClickOutside_member :: member where [member_defs]:
  "closeOnClickOutside_member = Member ''closeOnClickOutside'' True TBoolean"

section \<open>The interface\<close>

definition DatetimepickerProps :: interface where [member_defs]:
  "DatetimepickerProps =
     [value_member, initialValue_member, initialViewDate_member,
      initialViewMode_member, updateOnView_member, dateFormat_member,
      timeFormat_member, input_member, open_member, locale_member, utc_member,
      displayTimeZone_member, onChange_member, onOpen_member, onClose_member,
      onNavigate_member, onBeforeNavigate_member, onNavigateBack_member,
      onNavigateForward_member, className_member, inputProps_member,
      renderView_member, renderInput_member, isValidDate_member,
      renderDay_member, renderMonth_member, renderYear_member,
      strictParsing_member, closeOnTab_member, closeOnSelect_member,
      timeConstraints_member, closeOnClickOutside_member]"

text \<open>The names of the members, as the source spells them.\<close>

definition prop_names :: "name list" where
  "prop_names =
     [''value'', ''initialValue'', ''initialViewDate'', ''initialViewMode'',
      ''updateOnView'', ''dateFormat'', ''timeFormat'', ''input'', ''open'',
      ''locale'', ''utc'', ''displayTimeZone'', ''onChange'', ''onOpen'',
      ''onClose'', ''onNavigate'', ''onBeforeNavigate'', ''onNavigateBack'',
      ''onNavigateForward'', ''className'', ''inputProps'', ''renderView'',
      ''renderInput'', ''isValidDate'', ''renderDay'', ''renderMonth'',
      ''renderYear'', ''strictParsing'', ''closeOnTab'', ''closeOnSelect'',
      ''timeConstraints'', ''closeOnClickOutside'']"

section \<open>Well-formedness of the declaration\<close>

lemma member_names: "map mname DatetimepickerProps = prop_names"
  by (simp add: member_defs prop_names_def)

lemma distinct_prop_names: "distinct prop_names"
  by (simp add: prop_names_def)

lemma all_optional: "list_all optional DatetimepickerProps"
  by (simp add: member_defs)

lemma wf_member_types: "list_all (wf_ty \<circ> mtype) DatetimepickerProps"
  by (simp add: member_defs)

lemma wf_props: "wf_interface DatetimepickerProps"
  by (simp add: wf_interface_def member_names distinct_prop_names wf_member_types)

lemma declared_iff: "member_type DatetimepickerProps n = None \<longleftrightarrow> n \<notin> set prop_names"
  by (simp add: member_type_None_iff member_names [symmetric])

text \<open>The declared type of each name, computed once for the proofs below.\<close>

lemma declared_types:
  "member_type DatetimepickerProps ''value'' = Some DateT"
  "member_type DatetimepickerProps ''initialValue'' = Some DateT"
  "member_type DatetimepickerProps ''initialViewDate'' = Some DateT"
  "member_type DatetimepickerProps ''initialViewMode'' = Some TString"
  "member_type DatetimepickerProps ''updateOnView'' = Some TString"
  "member_type DatetimepickerProps ''dateFormat'' = Some (TUnion TBoolean TString)"
  "member_type DatetimepickerProps ''timeFormat'' = Some (TUnion TBoolean TString)"
  "member_type DatetimepickerProps ''input'' = Some TBoolean"
  "member_type DatetimepickerProps ''open'' = Some TBoolean"
  "member_type DatetimepickerProps ''locale'' = Some TString"
  "member_type DatetimepickerProps ''utc'' = Some TBoolean"
  "member_type DatetimepickerProps ''displayTimeZone'' = Some TString"
  "member_type DatetimepickerProps ''onChange'' =
     Some (TFun [(''momentOrInputString'', TUnion TString TAny)] TVoid)"
  "member_type DatetimepickerProps ''onOpen'' = Some (TFun [] TVoid)"
  "member_type DatetimepickerProps ''onClose'' =
     Some (TFun [(''momentOrInputString'', TUnion TString TAny)] TVoid)"
  "member_type DatetimepickerProps ''onNavigate'' = Some (TFun [(''viewMode'', TString)] TVoid)"
  "member_type DatetimepickerProps ''onBeforeNavigate'' =
     Some (TFun [(''nextView'', TString), (''currentView'', TString), (''viewDate'', MomentT)]
       TString)"
  "member_type DatetimepickerProps ''onNavigateBack'' =
     Some (TFun [(''amount'', TNumber), (''type'', TString)] TVoid)"
  "member_type DatetimepickerProps ''onNavigateForward'' =
     Some (TFun [(''amount'', TNumber), (''type'', TString)] TVoid)"
  "member_type DatetimepickerProps ''className'' = Some TString"
  "member_type DatetimepickerProps ''inputProps'' = Some ObjectT"
  "member_type DatetimepickerProps ''renderView'' =
     Some (TFun [(''viewMode'', TString), (''renderCalendar'', FunctionT)]
       (ReactComponentT TAny TAny))"
  "member_type DatetimepickerProps ''renderInput'' =
     Some (TFun [(''props'', ObjectT), (''openCalendar'', FunctionT), (''closeCalendar'', FunctionT)]
       (ReactComponentT TAny TAny))"
  "member_type DatetimepickerProps ''isValidDate'' =
     Some (TFun [(''currentDate'', TAny), (''selectedDate'', TAny)] TBoolean)"
  "member_type DatetimepickerProps ''renderDay'' =
     Some (TFun [(''props'', TAny), (''currentDate'', TAny), (''selectedDate'', TAny)]
       (ReactComponentT TAny TAny))"
  "member_type DatetimepickerProps ''renderMonth'' =
     Some (TFun [(''props'', TAny), (''month'', TNumber), (''year'', TNumber), (''selectedDate'', TAny)]
       (ReactComponentT TAny TAny))"
  "member_type DatetimepickerProps ''renderYear'' =
     Some (TFun [(''props'', TAny), (''year'', TNumber), (''selectedDate'', TAny)]
       (ReactComponentT TAny TAny))"
  "member_type DatetimepickerProps ''strictParsing'' = Some TBoolean"
  "member_type DatetimepickerProps ''closeOnTab'' = Some TBoolean"
  "member_type DatetimepickerProps ''closeOnSelect'' = Some TBoolean"
  "member_type DatetimepickerProps ''timeConstraints'' = Some ObjectT"
  "member_type DatetimepickerProps ''closeOnClickOutside'' = Some TBoolean"
  by (simp_all add: member_type_def member_defs)

lemma accepts_single:
  "accepts DatetimepickerProps [(n, S)] \<longleftrightarrow>
     (\<exists>T. member_type DatetimepickerProps n = Some T \<and> assignable S T)"
  by (rule accepts_single_iff [OF all_optional])

text \<open>
  C2. The interface declares 32 members, no name twice, every member optional,
  and every declared type is well formed (no parameter name twice in a
  signature).
\<close>

theorem DatetimepickerProps_wf:
  "wf_interface DatetimepickerProps \<and> list_all optional DatetimepickerProps \<and>
   length DatetimepickerProps = 32"
  by (simp add: wf_props all_optional) (simp add: DatetimepickerProps_def)

section \<open>Which props literals are accepted\<close>

text \<open>
  C1. A props literal is accepted against \<^verbatim>\<open>DatetimepickerProps\<close> exactly when it
  names no property twice and each of its properties is a declared member
  whose declared type the property's type is assignable to. No property has
  to be present.
\<close>

theorem props_accepts_iff:
  "accepts DatetimepickerProps L \<longleftrightarrow>
     distinct (map fst L) \<and>
     (\<forall>(n, S) \<in> set L. \<exists>T. member_type DatetimepickerProps n = Some T \<and> assignable S T)"
  using all_optional by (simp add: accepts_iff_conforms conforms_def list_all_iff)

theorem props_accepts_iff_witness:
  "accepts DatetimepickerProps [(''open'', TBoolean), (''onOpen'', TFun [] TVoid)] \<and>
   \<not> accepts DatetimepickerProps [(''open'', TBoolean), (''open'', TBoolean)] \<and>
   \<not> accepts DatetimepickerProps [(''open'', TString)]"
  by (simp add: props_accepts_iff declared_types assignable_unfold)

text \<open>
  C3. Giving any selection of the members, each at its declared type and in
  source order, is accepted.
\<close>

theorem subset_props_accepted:
  "subseq L (canonical DatetimepickerProps) \<Longrightarrow> accepts DatetimepickerProps L"
  using conforms_subseq [OF conforms_canonical [OF wf_props] _ all_optional]
  by (simp add: accepts_iff_conforms)

theorem subset_props_accepted_witness:
  "subseq [(''utc'', TBoolean), (''className'', TString)] (canonical DatetimepickerProps) \<and>
   accepts DatetimepickerProps [(''utc'', TBoolean), (''className'', TString)]"
proof -
  have "subseq [(''utc'', TBoolean), (''className'', TString)] (canonical DatetimepickerProps)"
    by (simp add: canonical_def member_defs)
  then show ?thesis
    using subset_props_accepted by blast
qed

text \<open>
  C4. A property is reported as excess exactly when its name is not one of the
  32 names of the source; names are compared with case.
\<close>

theorem excess_iff_undeclared:
  "ExcessProperty n \<in> set (diagnostics DatetimepickerProps L) \<longleftrightarrow>
     n \<in> fst ` set L \<and> n \<notin> set prop_names"
  by (simp add: excess_reported member_names [symmetric])

theorem excess_iff_undeclared_witness:
  "ExcessProperty ''onchange'' \<in>
     set (diagnostics DatetimepickerProps [(''onchange'', TFun [] TVoid)]) \<and>
   ExcessProperty ''onChange'' \<notin>
     set (diagnostics DatetimepickerProps [(''onChange'', TFun [] TVoid)])"
  by (simp add: excess_iff_undeclared prop_names_def)

section \<open>The interception hook\<close>

text \<open>
  C5. A function of the declared parameters is accepted as \<^verbatim>\<open>onBeforeNavigate\<close>
  exactly when its result type is built from \<^verbatim>\<open>string\<close>, \<^verbatim>\<open>any\<close>, undefined and
  null. So a hook may return a view name, \<^verbatim>\<open>null\<close> or \<^verbatim>\<open>undefined\<close>; a hook whose
  result is \<^verbatim>\<open>boolean\<close> (one that returns \<^verbatim>\<open>false\<close> to stop the navigation) or that
  returns nothing is rejected.
\<close>

theorem onBeforeNavigate_result:
  "accepts DatetimepickerProps
     [(''onBeforeNavigate'',
       TFun [(''nextView'', TString), (''currentView'', TString), (''viewDate'', MomentT)] R)]
   \<longleftrightarrow> built_from [TString] R"
  by (simp add: accepts_single declared_types assignable_TFun_TFun assignable_to_string)

theorem onBeforeNavigate_result_witness:
  "accepts DatetimepickerProps
     [(''onBeforeNavigate'',
       TFun [(''nextView'', TString), (''currentView'', TString), (''viewDate'', MomentT)] TNull)]
   \<and> \<not> accepts DatetimepickerProps
     [(''onBeforeNavigate'',
       TFun [(''nextView'', TString), (''currentView'', TString), (''viewDate'', MomentT)]
         TBoolean)]"
  by (simp add: onBeforeNavigate_result)

section \<open>Formats, switches and texts\<close>

text \<open>
  C6. \<^verbatim>\<open>dateFormat\<close> and \<^verbatim>\<open>timeFormat\<close> accept exactly the types built from
  \<^verbatim>\<open>boolean\<close>, \<^verbatim>\<open>string\<close>, \<^verbatim>\<open>any\<close>, undefined and null: a format string or a
  switch, not a number.
\<close>

theorem format_props_accept:
  "n \<in> {''dateFormat'', ''timeFormat''} \<Longrightarrow>
     accepts DatetimepickerProps [(n, S)] \<longleftrightarrow> built_from [TBoolean, TString] S"
  by (auto simp: accepts_single declared_types assignable_to_boolean_or_string)

theorem format_props_accept_witness:
  "accepts DatetimepickerProps [(''dateFormat'', TString)] \<and>
   accepts DatetimepickerProps [(''timeFormat'', TBoolean)] \<and>
   \<not> accepts DatetimepickerProps [(''dateFormat'', TNumber)]"
  using format_props_accept [of "''dateFormat''"] format_props_accept [of "''timeFormat''"]
  by simp

text \<open>
  C12. The seven switches (lines 60, 65, 74, 169, 173, 177 and 188) accept
  exactly the types built from \<^verbatim>\<open>boolean\<close>, \<^verbatim>\<open>any\<close>, undefined and null: neither a
  string such as \<^verbatim>\<open>"true"\<close> nor a number is accepted for them.
\<close>

theorem boolean_props_accept:
  "n \<in> {''input'', ''open'', ''utc'', ''strictParsing'', ''closeOnTab'', ''closeOnSelect'',
        ''closeOnClickOutside''} \<Longrightarrow>
     accepts DatetimepickerProps [(n, S)] \<longleftrightarrow> built_from [TBoolean] S"
  by (auto simp: accepts_single declared_types assignable_to_boolean)

theorem boolean_props_accept_witness:
  "accepts DatetimepickerProps [(''closeOnSelect'', TBoolean)] \<and>
   \<not> accepts DatetimepickerProps [(''closeOnSelect'', TString)] \<and>
   \<not> accepts DatetimepickerProps [(''utc'', TNumber)]"
  using boolean_props_accept [of "''closeOnSelect''"] boolean_props_accept [of "''utc''"]
  by simp

text \<open>
  C13. The five textual options (lines 34, 44, 70, 79 and 123) accept exactly
  the types built from \<^verbatim>\<open>string\<close>, \<^verbatim>\<open>any\<close>, undefined and null. The view modes
  are declared \<^verbatim>\<open>string\<close>, not an enumeration: the declaration does not confine
  \<^verbatim>\<open>initialViewMode\<close> and \<^verbatim>\<open>updateOnView\<close> to the four view names.
\<close>

theorem string_props_accept:
  "n \<in> {''initialViewMode'', ''updateOnView'', ''locale'', ''displayTimeZone'', ''className''} \<Longrightarrow>
     accepts DatetimepickerProps [(n, S)] \<longleftrightarrow> built_from [TString] S"
  by (auto simp: accepts_single declared_types assignable_to_string)

theorem string_props_accept_witness:
  "accepts DatetimepickerProps [(''initialViewMode'', TString)] \<and>
   \<not> accepts DatetimepickerProps [(''initialViewMode'', TNumber)] \<and>
   \<not> accepts DatetimepickerProps [(''locale'', TBoolean)]"
  using string_props_accept [of "''initialViewMode''"] string_props_accept [of "''locale''"]
  by simp

section \<open>Objects and dates\<close>

text \<open>
  C11. \<^verbatim>\<open>inputProps\<close> and \<^verbatim>\<open>timeConstraints\<close> are declared \<^verbatim>\<open>Object\<close>: they accept
  every type except \<^verbatim>\<open>void\<close> and the unions that hold \<^verbatim>\<open>void\<close>. So every object
  type, every function and every value of type \<^verbatim>\<open>boolean\<close>, \<^verbatim>\<open>number\<close> or \<^verbatim>\<open>string\<close>
  is accepted; the declaration does not say which attributes or which bounds
  the object holds.
\<close>

theorem object_props_accept:
  "n \<in> {''inputProps'', ''timeConstraints''} \<Longrightarrow>
     accepts DatetimepickerProps [(n, S)] \<longleftrightarrow> object_built S"
  by (auto simp: accepts_single declared_types assignable_to_Object_iff)

theorem object_props_accept_witness:
  "accepts DatetimepickerProps [(''timeConstraints'', TNumber)] \<and>
   accepts DatetimepickerProps [(''inputProps'', TRef [''HTMLAttributes''] [])] \<and>
   \<not> accepts DatetimepickerProps [(''inputProps'', TVoid)]"
  using object_props_accept [of "''timeConstraints''"] object_props_accept [of "''inputProps''"]
  by simp

text \<open>
  The three date-valued options are declared \<^verbatim>\<open>Date\<close>, so a string given for one
  of them is reported as a type mismatch. The comments above the three members
  (lines 18, 23 and 28) say that a date string may be used: the declared type
  and the comment disagree.
\<close>

lemma date_props_string_mismatch:
  "n \<in> {''value'', ''initialValue'', ''initialViewDate''} \<Longrightarrow>
     diagnostics DatetimepickerProps [(n, TString)] = [TypeMismatch n TString DateT]"
  by (auto simp: diagnostics_single [OF all_optional] declared_types assignable_unfold)

section \<open>Callbacks\<close>

text \<open>
  C14. The six notification callbacks, with the parameters the file declares
  for them (lines 85, 89, 96, 101, 114 and 119). A function is accepted for one
  of them exactly when it takes no more parameters than declared and each of
  its parameter types is comparable with the declared one at the same
  position; its result type does not matter, since the declared result is
  \<^verbatim>\<open>void\<close>.
\<close>

theorem notification_callbacks_accept:
  assumes "(n, qs) \<in>
    {(''onChange'', [(''momentOrInputString'', TUnion TString TAny)]),
     (''onOpen'', []),
     (''onClose'', [(''momentOrInputString'', TUnion TString TAny)]),
     (''onNavigate'', [(''viewMode'', TString)]),
     (''onNavigateBack'', [(''amount'', TNumber), (''type'', TString)]),
     (''onNavigateForward'', [(''amount'', TNumber), (''type'', TString)])}"
  shows "accepts DatetimepickerProps [(n, TFun ps R)] \<longleftrightarrow>
    length ps \<le> length qs \<and> params_compat ps qs"
  using assms by (auto simp: accepts_single declared_types assignable_TFun_TFun)

theorem notification_callbacks_accept_witness:
  "accepts DatetimepickerProps [(''onNavigateBack'', TFun [(''n'', TNumber)] TBoolean)] \<and>
   \<not> accepts DatetimepickerProps [(''onNavigateBack'', TFun [(''unit'', TString)] TVoid)] \<and>
   \<not> accepts DatetimepickerProps [(''onOpen'', TFun [(''e'', TAny)] TVoid)]"
  using
    notification_callbacks_accept
      [of "''onNavigateBack''" "[(''amount'', TNumber), (''type'', TString)]"]
    notification_callbacks_accept [of "''onOpen''" "[]"]
  by (simp add: assignable_unfold)

text \<open>
  C15. \<^verbatim>\<open>isValidDate\<close> (line 145) takes two parameters of type \<^verbatim>\<open>any\<close> and returns
  \<^verbatim>\<open>boolean\<close>: a function is accepted for it exactly when it takes at most two
  parameters, of whatever types, and its result type is built from \<^verbatim>\<open>boolean\<close>,
  \<^verbatim>\<open>any\<close>, undefined and null. A predicate that returns nothing is rejected.
\<close>

theorem isValidDate_accept:
  "accepts DatetimepickerProps [(''isValidDate'', TFun ps R)] \<longleftrightarrow>
     length ps \<le> 2 \<and> built_from [TBoolean] R"
  by (simp add: accepts_single declared_types assignable_TFun_TFun assignable_to_boolean
      params_compat_takes_any numeral_2_eq_2)

theorem isValidDate_accept_witness:
  "accepts DatetimepickerProps [(''isValidDate'', TFun [(''current'', MomentT)] TBoolean)] \<and>
   \<not> accepts DatetimepickerProps [(''isValidDate'', TFun [(''current'', MomentT)] TVoid)] \<and>
   \<not> accepts DatetimepickerProps
     [(''isValidDate'', TFun [(''a'', TAny), (''b'', TAny), (''c'', TAny)] TBoolean)]"
  by (simp add: isValidDate_accept)

text \<open>
  C9. Each of the five render hooks is declared to return
  \<^verbatim>\<open>React.Component<any, any>\<close>. A hook of the declared parameters is accepted
  when it returns a component with any props and state types and when it
  returns \<^verbatim>\<open>null\<close>; a hook that returns nothing is rejected.
\<close>

theorem render_hooks_result:
  assumes "n \<in> {''renderView'', ''renderInput'', ''renderDay'', ''renderMonth'', ''renderYear''}"
    and "member_type DatetimepickerProps n = Some (TFun ps r)"
  shows "r = ReactComponentT TAny TAny \<and>
    accepts DatetimepickerProps [(n, TFun ps (ReactComponentT P S))] \<and>
    accepts DatetimepickerProps [(n, TFun ps TNull)] \<and>
    \<not> accepts DatetimepickerProps [(n, TFun ps TVoid)]"
proof -
  from assms have r: "r = ReactComponentT TAny TAny"
    by (auto simp: declared_types)
  have "assignable (ReactComponentT P S) r" "assignable TNull r" "\<not> assignable TVoid r"
    by (simp_all add: r assignable_TRef_TRef assignable_unfold)
  with assms(2) r show ?thesis
    by (simp add: accepts_single assignable_TFun_TFun)
qed

theorem render_hooks_result_witness:
  "accepts DatetimepickerProps
     [(''renderDay'',
       TFun [(''props'', TAny), (''currentDate'', TAny), (''selectedDate'', TAny)] TNull)] \<and>
   \<not> accepts DatetimepickerProps
     [(''renderDay'',
       TFun [(''props'', TAny), (''currentDate'', TAny), (''selectedDate'', TAny)] TVoid)]"
proof -
  have m: "member_type DatetimepickerProps ''renderDay'' =
      Some (TFun [(''props'', TAny), (''currentDate'', TAny), (''selectedDate'', TAny)]
        (ReactComponentT TAny TAny))"
    by (simp add: declared_types)
  from render_hooks_result [OF _ m] show ?thesis by simp
qed

end
