(* ===== verification/Modules.thy ===== *)
theory Modules
  imports DatetimepickerProps
begin

text \<open>
  The two module declarations of \<^verbatim>\<open>src/react-datetime.d.ts\<close>: the ambient namespace
  \<^verbatim>\<open>ReactDatetime\<close> (lines 11 to 193), which holds the import alias \<^verbatim>\<open>React\<close> and the
  interfaces \<^verbatim>\<open>DatetimepickerProps\<close> and \<^verbatim>\<open>DatetimeComponent\<close>, and the ambient
  external module \<^verbatim>\<open>'react-datetime'\<close> (lines 195 to 198), which declares the
  variable \<^verbatim>\<open>DateTime\<close> and exports it with an export assignment.

  The theory gives the declarations as data, the rules by which TypeScript 1.8
  resolves a name in them (which declarations of an ambient module are
  exported, what an import of the external module yields), and the two facts a
  user of the file relies on: what the default export is, and which names the
  file needs from elsewhere.
\<close>

section \<open>Declarations\<close>

text \<open>
  The forms of declaration the file uses inside a module body:
  \<^verbatim>\<open>import A = B.C;\<close>, \<^verbatim>\<open>[export] interface N extends Bs { members }\<close>,
  \<^verbatim>\<open>var x: T;\<close> and \<^verbatim>\<open>export = x;\<close>. The flag of an interface says whether the
  source writes the \<^verbatim>\<open>export\<close> modifier.
\<close>

datatype decl =
    ImportAlias name qname
  | InterfaceDecl bool name "ty list" interface
  | VarDecl name ty
  | ExportAssignment name

text \<open>
  \<^verbatim>\<open>declare module N { ... }\<close> with an identifier is a namespace; with a string
  literal it declares an external module of that name.
\<close>

datatype module_decl =
    Namespace name "decl list"
  | AmbientModule string "decl list"

type_synonym source_file = "module_decl list"

fun decls :: "module_decl \<Rightarrow> decl list" where
  "decls (Namespace n ds) = ds"
| "decls (AmbientModule m ds) = ds"

section \<open>The file\<close>

definition DatetimeComponent :: decl where [module_defs]:
  "DatetimeComponent =
     InterfaceDecl False ''DatetimeComponent''
       [ReactComponentClassT (TRef [''DatetimepickerProps''] [])] []"

definition ReactDatetime :: module_decl where [module_defs]:
  "ReactDatetime =
     Namespace ''ReactDatetime''
       [ImportAlias ''React'' [''__React''],
        InterfaceDecl True ''DatetimepickerProps'' [] DatetimepickerProps,
        DatetimeComponent]"

definition react_datetime :: module_decl where [module_defs]:
  "react_datetime =
     AmbientModule ''react-datetime''
       [VarDecl ''DateTime'' (TRef [''ReactDatetime'', ''DatetimeComponent''] []),
        ExportAssignment ''DateTime'']"

definition react_datetime_d_ts :: source_file where [module_defs]:
  "react_datetime_d_ts = [ReactDatetime, react_datetime]"

section \<open>Exported declarations\<close>

text \<open>
  In an ambient module body that holds no export assignment, every declaration
  other than an import alias is exported, with or without the \<^verbatim>\<open>export\<close>
  modifier (language specification, section 12.1.5). With an export
  assignment, the module exports the assigned entity and nothing else.
\<close>

fun is_export_assignment :: "decl \<Rightarrow> bool" where
  "is_export_assignment (ExportAssignment x) = True"
| "is_export_assignment _ = False"

fun declares :: "name \<Rightarrow> decl \<Rightarrow> bool" where
  "declares n (ImportAlias a q) = (a = n)"
| "declares n (InterfaceDecl e i bs ms) = (i = n)"
| "declares n (VarDecl x T) = (x = n)"
| "declares n (ExportAssignment x) = False"

fun exported :: "decl list \<Rightarrow> decl \<Rightarrow> bool" where
  "exported ds (ImportAlias a q) = False"
| "exported ds (ExportAssignment x) = False"
| "exported ds d = (\<not> list_ex is_export_assignment ds)"

definition find_namespace :: "source_file \<Rightarrow> name \<Rightarrow> decl list option" where
  "find_namespace f n =
     map_option decls (find (\<lambda>md. case md of Namespace k ds \<Rightarrow> k = n | _ \<Rightarrow> False) f)"

definition find_module :: "source_file \<Rightarrow> string \<Rightarrow> decl list option" where
  "find_module f m =
     map_option decls (find (\<lambda>md. case md of AmbientModule k ds \<Rightarrow> k = m | _ \<Rightarrow> False) f)"

text \<open>The exported declaration \<open>n\<close> of namespace \<open>ns\<close>, as seen from outside of it.\<close>

definition namespace_member :: "source_file \<Rightarrow> name \<Rightarrow> name \<Rightarrow> decl option" where
  "namespace_member f ns n =
     (case find_namespace f ns of
        None \<Rightarrow> None
      | Some ds \<Rightarrow> find (\<lambda>d. declares n d \<and> exported ds d) ds)"

section \<open>What an import of the external module yields\<close>

text \<open>
  \<open>export_type f m\<close>: the declared type of the variable that the external
  module \<open>m\<close> assigns to its export; \<open>None\<close> when the file declares no such module,
  the module has no export assignment, or the assigned name is not a variable
  of the module.
\<close>

fun var_type :: "name \<Rightarrow> decl \<Rightarrow> ty option" where
  "var_type n (VarDecl x T) = (if x = n then Some T else None)"
| "var_type n _ = None"

fun first_some :: "('a \<Rightarrow> 'b option) \<Rightarrow> 'a list \<Rightarrow> 'b option" where
  "first_some g [] = None"
| "first_some g (x # xs) = (case g x of None \<Rightarrow> first_some g xs | Some y \<Rightarrow> Some y)"

fun assigned_name :: "decl \<Rightarrow> name option" where
  "assigned_name (ExportAssignment x) = Some x"
| "assigned_name _ = None"

definition export_type :: "source_file \<Rightarrow> string \<Rightarrow> ty option" where
  "export_type f m =
     (case find_module f m of
        None \<Rightarrow> None
      | Some ds \<Rightarrow>
          (case first_some assigned_name ds of
             None \<Rightarrow> None
           | Some x \<Rightarrow> first_some (var_type x) ds))"

text \<open>
  The props interface of a component type: the type names an interface of a
  namespace of the file, that interface extends \<^verbatim>\<open>React.ComponentClass<P>\<close>, and
  \<open>P\<close> names an interface of the same namespace, whose body is the result.
\<close>

fun component_class_arg :: "ty \<Rightarrow> name option" where
  "component_class_arg (TRef q args) =
     (if q = [''React'', ''ComponentClass''] then
        (case args of [TRef [p] []] \<Rightarrow> Some p | _ \<Rightarrow> None)
      else None)"
| "component_class_arg _ = None"

fun interface_bases :: "decl \<Rightarrow> ty list option" where
  "interface_bases (InterfaceDecl e i bs ms) = Some bs"
| "interface_bases _ = None"

fun interface_body :: "decl \<Rightarrow> interface option" where
  "interface_body (InterfaceDecl e i bs ms) = Some ms"
| "interface_body _ = None"

definition props_of_type :: "source_file \<Rightarrow> ty \<Rightarrow> interface option" where
  "props_of_type f T =
     (case T of
        TRef [ns, c] [] \<Rightarrow>
          (case Option.bind (namespace_member f ns c) interface_bases of
             None \<Rightarrow> None
           | Some bs \<Rightarrow>
               (case first_some component_class_arg bs of
                  None \<Rightarrow> None
                | Some p \<Rightarrow> Option.bind (namespace_member f ns p) interface_body))
      | _ \<Rightarrow> None)"

definition component_props :: "source_file \<Rightarrow> string \<Rightarrow> interface option" where
  "component_props f m = Option.bind (export_type f m) (props_of_type f)"

section \<open>Names the file takes from elsewhere\<close>

text \<open>
  The type references of a declaration, and whether a reference is bound: a
  plain name by an interface of the enclosing module body or by the
  environment; a dotted name by an import alias of the enclosing body whose
  target starts in the environment, by an exported declaration of a namespace
  of the file, or by the environment.
\<close>

fun decl_refs :: "decl \<Rightarrow> qname list" where
  "decl_refs (InterfaceDecl e i bs ms) = concat (map type_refs bs) @ interface_refs ms"
| "decl_refs (VarDecl x T) = type_refs T"
| "decl_refs _ = []"

fun alias_target :: "name \<Rightarrow> decl \<Rightarrow> qname option" where
  "alias_target n (ImportAlias a q) = (if a = n then Some q else None)"
| "alias_target n _ = None"

fun is_interface :: "name \<Rightarrow> decl \<Rightarrow> bool" where
  "is_interface n (InterfaceDecl e i bs ms) = (i = n)"
| "is_interface n _ = False"

fun bound :: "name list \<Rightarrow> source_file \<Rightarrow> decl list \<Rightarrow> qname \<Rightarrow> bool" where
  "bound env f ds [] = False"
| "bound env f ds [n] = (list_ex (is_interface n) ds \<or> n \<in> set env)"
| "bound env f ds (n # m # rest) =
     (case first_some (alias_target n) ds of
        Some q \<Rightarrow> q \<noteq> [] \<and> hd q \<in> set env
      | None \<Rightarrow>
          (rest = [] \<and> namespace_member f n m \<noteq> None) \<or> n \<in> set env)"

definition unbound_in :: "name list \<Rightarrow> source_file \<Rightarrow> decl list \<Rightarrow> qname list" where
  "unbound_in env f ds =
     filter (\<lambda>q. \<not> bound env f ds q) (remdups (concat (map decl_refs ds)))"

definition unbound :: "name list \<Rightarrow> source_file \<Rightarrow> qname list" where
  "unbound env f = concat (map (\<lambda>md. unbound_in env f (decls md)) f)"

text \<open>
  What the file takes from outside and says so: \<^verbatim>\<open>Date\<close>, \<^verbatim>\<open>Object\<close> and \<^verbatim>\<open>Function\<close>
  of the standard library declarations, and the global \<^verbatim>\<open>__React\<close> of the React
  typings that line 12 aliases.
\<close>

definition ambient_names :: "name list" where
  "ambient_names = [''Date'', ''Object'', ''Function'', ''__React'']"

section \<open>Resolution in the file\<close>

lemmas resolve_defs =
  component_props_def export_type_def find_module_def props_of_type_def
  namespace_member_def find_namespace_def

text \<open>
  \<^verbatim>\<open>DatetimeComponent\<close> is declared without the \<^verbatim>\<open>export\<close> modifier and is used from
  the external module all the same: the namespace holds no export assignment,
  so the interface is exported. The alias \<^verbatim>\<open>React\<close> is not.
\<close>

lemma DatetimeComponent_exported:
  "namespace_member react_datetime_d_ts ''ReactDatetime'' ''DatetimeComponent'' =
     Some DatetimeComponent"
  by (simp add: resolve_defs module_defs)

lemma React_alias_not_exported:
  "namespace_member react_datetime_d_ts ''ReactDatetime'' ''React'' = None"
  by (simp add: resolve_defs module_defs)

lemma export_type_react_datetime:
  "export_type react_datetime_d_ts ''react-datetime'' =
     Some (TRef [''ReactDatetime'', ''DatetimeComponent''] [])"
  by (simp add: resolve_defs module_defs)

text \<open>
  C7. What an import of \<^verbatim>\<open>'react-datetime'\<close> yields is a component class whose
  props are the interface \<^verbatim>\<open>DatetimepickerProps\<close>: the export assignment names the
  variable \<^verbatim>\<open>DateTime\<close>, its type is \<^verbatim>\<open>ReactDatetime.DatetimeComponent\<close>, and that
  interface extends \<^verbatim>\<open>React.ComponentClass<DatetimepickerProps>\<close>.
\<close>

theorem default_export_props:
  "component_props react_datetime_d_ts ''react-datetime'' = Some DatetimepickerProps"
  by (simp add: resolve_defs module_defs)

text \<open>
  C8. The file resolves exactly in the environments that supply \<^verbatim>\<open>Date\<close>,
  \<^verbatim>\<open>Object\<close>, \<^verbatim>\<open>Function\<close>, \<^verbatim>\<open>__React\<close> and \<^verbatim>\<open>Moment\<close>. The first four are the names
  of \<open>ambient_names\<close>; \<^verbatim>\<open>Moment\<close> (line 109) is bound by nothing the file declares
  or imports, the import of line 13 and the reference of line 9 being
  commented out.
\<close>

theorem file_closed_iff:
  "unbound env react_datetime_d_ts = [] \<longleftrightarrow> set (''Moment'' # ambient_names) \<subseteq> set env"
  by (simp add: unbound_def unbound_in_def module_defs member_defs interface_refs_def
      resolve_defs ambient_names_def)

theorem file_closed_iff_witness:
  "unbound ambient_names react_datetime_d_ts \<noteq> [] \<and>
   unbound (''Moment'' # ambient_names) react_datetime_d_ts = []"
  using file_closed_iff [of ambient_names] file_closed_iff [of "''Moment'' # ambient_names"]
  by (simp add: ambient_names_def)

lemma unbound_ambient: "unbound ambient_names react_datetime_d_ts = [[''Moment'']]"
  by (simp add: unbound_def unbound_in_def module_defs member_defs interface_refs_def
      resolve_defs ambient_names_def)

end
