(* ===== verification/Spec2Isabelle.thy ===== *)
theory Spec2Isabelle
  imports Modules
begin

text \<open>
  \<^bold>\<open>The program.\<close> The repository's source under \<^verbatim>\<open>src/\<close> is one file,
  \<^verbatim>\<open>src/react-datetime.d.ts\<close>: the TypeScript 1.8 declarations of a date and time
  picker component. The file holds no statement and no expression. It declares
  \<^item> the interface \<^verbatim>\<open>DatetimepickerProps\<close> (lines 15 to 189): 32 optional
    members, the options of the picker, each with a type and a comment that
    says what the option does;
  \<^item> the interface \<^verbatim>\<open>DatetimeComponent\<close> (lines 191 and 192), which extends
    \<^verbatim>\<open>React.ComponentClass<DatetimepickerProps>\<close>, and the import alias \<^verbatim>\<open>React\<close>
    (line 12), all three inside the ambient namespace \<^verbatim>\<open>ReactDatetime\<close>;
  \<^item> the ambient external module \<^verbatim>\<open>'react-datetime'\<close> (lines 195 to 198), whose
    export is a variable of type \<^verbatim>\<open>ReactDatetime.DatetimeComponent\<close>.

  The picker itself (its rendering, its views, its parsing of dates) is not in
  \<^verbatim>\<open>src/\<close>, and neither are the React typings, the moment.js typings and the
  standard library declarations the file refers to. What the file does is fix
  what the compiler accepts from a caller of the picker. The development models
  that: the declarations as data, the compiler's rules as executable
  functions, and theorems about which props literals are accepted.

  \<^bold>\<open>The theories.\<close>
  \<^descr>[\<open>Prelude\<close>] names (\<open>name\<close>, \<open>qname\<close>), the collections \<open>member_defs\<close>,
    \<open>module_defs\<close> and \<open>check_defs\<close>, and list lemmas: \<open>duplicates\<close>, \<open>lookup_by\<close>,
    subsequences.
  \<^descr>[\<open>TsTypes\<close>] the type expressions the file is written in (\<open>ty\<close>), interface
    members (\<open>member\<close>, \<open>interface\<close>, \<open>find_member\<close>, \<open>member_type\<close>), the names a
    type refers to (\<open>type_refs\<close>) and syntactic well-formedness (\<open>wf_ty\<close>,
    \<open>wf_interface\<close>).
  \<^descr>[\<open>Assignability\<close>] assignment compatibility (\<open>assignable\<close>) after section
    3.11.4 of the TypeScript 1.8 language specification, one lemma per rule,
    and closed forms of what a target admits: \<open>built_from\<close> for \<^verbatim>\<open>boolean\<close>,
    \<^verbatim>\<open>number\<close>, \<^verbatim>\<open>string\<close> and \<^verbatim>\<open>boolean|string\<close>, \<open>object_built\<close> for \<^verbatim>\<open>Object\<close>,
    \<open>takes_any\<close> for a parameter that admits every type.
  \<^descr>[\<open>AssignRules\<close>] the same rules as an inductive relation \<open>assign\<close>, one
    introduction rule per rule of the specification, and
    \<open>assignable_iff_assign\<close>: the function decides the relation.
  \<^descr>[\<open>ObjectLiteral\<close>] the check of a props literal against an interface:
    \<open>diagnostics\<close> lists what the compiler reports (duplicate, excess,
    mismatched and missing properties), \<open>accepts\<close> is the absence of reports,
    \<open>conforms\<close> is its declarative reading, and \<open>accepts_iff_conforms\<close> shows that
    the two agree. Each kind of diagnostic is characterised
    (\<open>duplicate_reported\<close>, \<open>excess_reported\<close>, \<open>mismatch_reported\<close>,
    \<open>missing_reported\<close>). The rules that hold of every interface with optional
    members only (\<open>accepts_fewer_params\<close>, \<open>accepts_void_result\<close>, \<open>conforms_subseq\<close>)
    are lemmas of this theory, not properties of the file.
  \<^descr>[\<open>DatetimepickerProps\<close>] the interface of the source: one definition per
    member (\<open>value_member\<close>, \<open>initialValue_member\<close>, ...,
    \<open>closeOnClickOutside_member\<close>), their list \<open>DatetimepickerProps\<close>, the list of
    their names \<open>prop_names\<close>, and the properties C1 to C6, C9 and C11 to C15.
  \<^descr>[\<open>Modules\<close>] the two module declarations (\<open>ReactDatetime\<close>,
    \<open>react_datetime\<close>, \<open>react_datetime_d_ts\<close>), which declarations an ambient
    module exports (\<open>exported\<close>, \<open>namespace_member\<close>), what an import of the
    external module yields (\<open>export_type\<close>, \<open>component_props\<close>), which names the
    file leaves unbound (\<open>unbound\<close>), and the properties C7 and C8.
  \<^descr>[\<open>Spec2Isabelle\<close>] this header and the property C10, which joins the
    module declarations to the check of a literal.

  \<^bold>\<open>Correspondence with the source.\<close> A member \<^verbatim>\<open>name?: T;\<close> of the source is
  \<open>Member ''name'' True T'\<close>, with \<open>T'\<close> the type expression \<open>T\<close> in the
  constructors of \<open>ty\<close>: \<^verbatim>\<open>Date\<close> is \<open>DateT\<close>, \<^verbatim>\<open>boolean|string\<close> is
  \<open>TUnion TBoolean TString\<close>, \<^verbatim>\<open>(amount: number, type: string) => void\<close> is
  \<open>TFun [(''amount'', TNumber), (''type'', TString)] TVoid\<close>, and
  \<^verbatim>\<open>React.Component<any, any>\<close> is \<open>ReactComponentT TAny TAny\<close>. Parameter names
  are kept. Each \<open>n_member\<close> stands for the one line of the source that declares
  the member \<^verbatim>\<open>n\<close>; \<open>prop_names\<close> repeats the 32 names, and \<open>member_names\<close> shows
  that it is the list of the names of \<open>DatetimepickerProps\<close>. The comments of the
  source are not modelled as definitions. Where a comment and the declared
  type disagree, a theorem or a lemma states what the type admits (C5, C11,
  \<open>date_props_string_mismatch\<close>).

  The definitions of \<open>TsTypes\<close>, \<open>Assignability\<close>, \<open>AssignRules\<close> and
  \<open>ObjectLiteral\<close> and the functions \<open>exported\<close>, \<open>export_type\<close>,
  \<open>component_props\<close> and \<open>unbound\<close> of \<open>Modules\<close> are the rules of the compiler,
  written from the language specification. They translate no line of the
  repository: they are the semantics under which the declarations are read.

  \<^bold>\<open>What the theorems show.\<close>
  \<^item> C1 to C4: which literals are accepted. Acceptance is exactly: no name
    twice, every name one of the 32, every type assignable to the declared one
    (C1); the declaration is well formed, with 32 optional members (C2); any
    selection of the declared members, in source order, is accepted (C3); a
    name outside the 32 is reported as excess (C4).
  \<^item> C5, C6, C11 to C13: what the options admit, as equivalences. The
    interception hook may return a string, \<^verbatim>\<open>null\<close> or \<^verbatim>\<open>undefined\<close> but not
    \<^verbatim>\<open>false\<close> (C5); the format options take a string or a boolean (C6); the
    \<^verbatim>\<open>Object\<close>-typed options take everything but \<^verbatim>\<open>void\<close> (C11); the seven
    switches take a boolean (C12) and the five textual options a string (C13).
  \<^item> C9, C14, C15: callbacks. A render hook may return a component or \<^verbatim>\<open>null\<close>
    but must return something (C9); a notification callback is accepted
    exactly when its parameters fit the declared ones, whatever it returns
    (C14); the date predicate takes at most two parameters and returns a
    boolean (C15).
  \<^item> C7, C8, C10: the module level. The default export is a component class
    over \<^verbatim>\<open>DatetimepickerProps\<close> (C7); the file resolves exactly when its
    environment supplies \<^verbatim>\<open>Date\<close>, \<^verbatim>\<open>Object\<close>, \<^verbatim>\<open>Function\<close>, \<^verbatim>\<open>__React\<close> and
    \<^verbatim>\<open>Moment\<close> (C8); the props of the imported component are checked as C1
    says (C10).

  \<^bold>\<open>Assumptions and limits.\<close>
  \<^item> The compiler's rules are those of TypeScript 1.8, the version the file
    names on line 6: \<^verbatim>\<open>null\<close> and \<^verbatim>\<open>undefined\<close> are assignable to every type
    (there is no strict null checking), parameters are compared bivariantly,
    object literals are checked for excess properties.
  \<^item> A type reference is taken to name an interface or a class, as the
    references of the file do (\<^verbatim>\<open>Date\<close>, \<^verbatim>\<open>Object\<close>, \<^verbatim>\<open>Function\<close>, \<^verbatim>\<open>Moment\<close>,
    \<^verbatim>\<open>React.Component\<close>, \<^verbatim>\<open>React.ComponentClass\<close>); enum types and type aliases
    are outside the fragment.
  \<^item> The members of the types declared outside the repository are not known
    here, so two references are compared by name and by their type arguments.
    Where \<open>assignable\<close> holds the compiler agrees. Between two references of
    different names, neither being \<^verbatim>\<open>Object\<close>, the compiler compares members
    and may accept what \<open>assignable\<close> rejects; no property of the development
    rests on such a rejection. The rejections that the properties state have
    a primitive type, \<^verbatim>\<open>void\<close> or a function type on one side (C5, C6, C9, C11
    to C15). For the same reason C11 reads \<^verbatim>\<open>Object\<close> as the compiler does for
    the types of the fragment: an object type, a function or a primitive
    value is assignable to it.
  \<^item> A union is kept as written. The compiler reduces \<^verbatim>\<open>string|any\<close>, the type
    of the parameter of \<^verbatim>\<open>onChange\<close> and \<^verbatim>\<open>onClose\<close>, to \<^verbatim>\<open>any\<close>; \<open>assignable\<close>
    agrees with that reading wherever the union is the target or a parameter
    type (\<open>assignable_takes_any\<close>, \<open>params_compat_takes_any\<close>), which are the only
    positions in which the file uses it. As the type of a value the unreduced
    union is stricter than \<^verbatim>\<open>any\<close>; no property has it in that position.
  \<^item> No definition recurses without a termination proof and none takes fuel:
    \<open>assignable\<close> is a \<^theory_text>\<open>function\<close> whose measure is the sum of the sizes of the
    two types; everything else is primitive or structural recursion.

  \<^bold>\<open>Not modelled.\<close> The behaviour of the picker at run time (its views, its
  parsing of dates, when it calls which callback): it is described by the
  comments of the file but implemented outside \<^verbatim>\<open>src/\<close>, and a declaration file
  cannot constrain it. The React typings, the moment.js typings and the
  standard library declarations are not modelled either; the file refers to
  them by name only, and C8 states which names it needs.
\<close>

section \<open>From the import to the check\<close>

text \<open>
  C10. For the component that an import of \<^verbatim>\<open>'react-datetime'\<close> yields, the
  compiler reports nothing on a props literal exactly when the literal names
  no property twice, names only members of the source, and gives each a type
  assignable to the declared one.
\<close>

theorem imported_props_check:
  assumes "component_props react_datetime_d_ts ''react-datetime'' = Some I"
  shows "diagnostics I L = [] \<longleftrightarrow>
    distinct (map fst L) \<and>
    (\<forall>(n, S) \<in> set L. n \<in> set prop_names \<and>
       (\<exists>T. member_type DatetimepickerProps n = Some T \<and> assignable S T))"
proof -
  have "component_props react_datetime_d_ts ''react-datetime'' = Some DatetimepickerProps"
    by (simp add: resolve_defs module_defs)
  with assms have I: "I = DatetimepickerProps" by simp
  have "member_type DatetimepickerProps n = Some T \<Longrightarrow> n \<in> set prop_names" for n T
    using declared_iff [of n] by auto
  then show ?thesis
    unfolding I accepts_def [symmetric] accepts_iff_conforms conforms_def
    using all_optional by (fastforce simp: list_all_iff)
qed

theorem imported_props_check_witness:
  "component_props react_datetime_d_ts ''react-datetime'' = Some DatetimepickerProps \<and>
   diagnostics DatetimepickerProps [(''closeOnSelect'', TBoolean)] = [] \<and>
   diagnostics DatetimepickerProps [(''closeOnselect'', TBoolean)] \<noteq> []"
proof -
  have c: "component_props react_datetime_d_ts ''react-datetime'' = Some DatetimepickerProps"
    by (simp add: resolve_defs module_defs)
  from imported_props_check [OF c, of "[(''closeOnSelect'', TBoolean)]"]
    imported_props_check [OF c, of "[(''closeOnselect'', TBoolean)]"] c
  show ?thesis
    by (simp add: prop_names_def declared_types assignable_unfold)
qed

end
